theory Spec2Isabelle
  imports Complex_Main
begin

section \<open>The water scene of \<^verbatim>\<open>src/js/components/water.js\<close>\<close>

text \<open>
  JavaScript numbers are modelled as HOL reals: rounding of IEEE doubles (and of the
  32-bit floats of a texture) is outside the model. The counters of the loops
  (\<open>i\<close>, \<open>j\<close>, \<open>p\<close>) only ever hold small natural numbers and are \<open>nat\<close>.
\<close>

subsection \<open>Module constants\<close>

definition WIDTH :: nat where
  "WIDTH = 128"

definition BOUNDS :: real where
  "BOUNDS = 512"

definition waterMaxHeight :: real where
  "waterMaxHeight = 10"

subsection \<open>The noise field: \<^verbatim>\<open>fillTexture\<close>\<close>

text \<open>
  \<^verbatim>\<open>simplex.noise\<close> comes from the three.js add-on \<^verbatim>\<open>SimplexNoise\<close>; the instance
  \<^verbatim>\<open>simplex\<close> of the module is a parameter \<open>sn\<close> of everything that samples it.

  The loop of \<^verbatim>\<open>noise(x, y)\<close>, with its variables \<open>i\<close>, \<open>multR\<close>, \<open>mult\<close> and \<open>r\<close>:
  \<^verbatim>\<open>for (let i = 0; i < 15; i++) { r += multR * simplex.noise(x * mult, y * mult);
       multR *= 0.53 + 0.025 * i; mult *= 1.25; }\<close>
\<close>

function noise_loop ::
  "(real \<Rightarrow> real \<Rightarrow> real) \<Rightarrow> real \<Rightarrow> real \<Rightarrow> nat \<Rightarrow> real \<Rightarrow> real \<Rightarrow> real \<Rightarrow> real" where
  "noise_loop sn x y i multR mult r =
     (if i < 15
      then noise_loop sn x y (i + 1) (multR * (0.53 + 0.025 * real i)) (mult * 1.25)
             (r + multR * sn (x * mult) (y * mult))
      else r)"
  by pat_completeness auto
termination
  by (relation "measure (\<lambda>(sn, x, y, i, multR, mult, r). 15 - i)") auto

declare noise_loop.simps [simp del]

definition noise :: "(real \<Rightarrow> real \<Rightarrow> real) \<Rightarrow> real \<Rightarrow> real \<Rightarrow> real" where
  "noise sn x y = noise_loop sn x y 0 waterMaxHeight 0.025 0"

text \<open>
  The pixel array of a texture is a list of numbers. A write \<^verbatim>\<open>pixels[p] = v\<close> to a
  typed array is dropped when \<open>p\<close> is past the end, which is what \<open>xs[p := v]\<close> does.
  The body of the inner loop writes the four channels of the cell at \<open>p\<close>.
\<close>

definition write_cell :: "(real \<Rightarrow> real \<Rightarrow> real) \<Rightarrow> nat \<Rightarrow> nat \<Rightarrow> nat \<Rightarrow> real list \<Rightarrow> real list" where
  "write_cell sn j i p pixels =
     (let x = real i * 128 / real WIDTH;
          y = real j * 128 / real WIDTH;
          pixels1 = pixels[p + 0 := noise sn x y];
          pixels2 = pixels1[p + 1 := pixels1 ! (p + 0)];
          pixels3 = pixels2[p + 2 := 0];
          pixels4 = pixels3[p + 3 := 1]
      in pixels4)"

function fill_inner ::
  "(real \<Rightarrow> real \<Rightarrow> real) \<Rightarrow> nat \<Rightarrow> nat \<Rightarrow> nat \<Rightarrow> real list \<Rightarrow> nat \<times> real list" where
  "fill_inner sn j i p pixels =
     (if i < WIDTH
      then fill_inner sn j (i + 1) (p + 4) (write_cell sn j i p pixels)
      else (p, pixels))"
  by pat_completeness auto
termination
  by (relation "measure (\<lambda>(sn, j, i, p, pixels). WIDTH - i)") auto

declare fill_inner.simps [simp del]

function fill_outer ::
  "(real \<Rightarrow> real \<Rightarrow> real) \<Rightarrow> nat \<Rightarrow> nat \<Rightarrow> real list \<Rightarrow> real list" where
  "fill_outer sn j p pixels =
     (if j < WIDTH
      then (case fill_inner sn j 0 p pixels of (p', pixels') \<Rightarrow> fill_outer sn (j + 1) p' pixels')
      else pixels)"
  by pat_completeness auto
termination
  by (relation "measure (\<lambda>(sn, j, p, pixels). WIDTH - j)") auto

declare fill_outer.simps [simp del]

definition fillTexture :: "(real \<Rightarrow> real \<Rightarrow> real) \<Rightarrow> real list \<Rightarrow> real list" where
  "fillTexture sn pixels = fill_outer sn 0 0 pixels"

text \<open>
  The specification's description of the noise height, written as it reads: fifteen
  octaves, the amplitude starting at the maximal height and multiplied after octave
  \<open>i\<close> by \<open>0.53 + 0.025 * i\<close>, the frequency starting at \<open>0.025\<close> and multiplied
  by \<open>1.25\<close> after each octave.
\<close>

fun spec_amplitude :: "nat \<Rightarrow> real" where
  "spec_amplitude 0 = 10"
| "spec_amplitude (Suc i) = spec_amplitude i * (0.53 + 0.025 * real i)"

fun spec_frequency :: "nat \<Rightarrow> real" where
  "spec_frequency 0 = 0.025"
| "spec_frequency (Suc i) = spec_frequency i * 1.25"

definition spec_noise :: "(real \<Rightarrow> real \<Rightarrow> real) \<Rightarrow> real \<Rightarrow> real \<Rightarrow> real" where
  "spec_noise sn x y =
     (\<Sum>i = 0..<15. spec_amplitude i * sn (x * spec_frequency i) (y * spec_frequency i))"

text \<open>The four channels that \<^verbatim>\<open>fillTexture\<close> leaves in the cell of column \<open>i\<close>, row \<open>j\<close>.\<close>

definition cell :: "(real \<Rightarrow> real \<Rightarrow> real) \<Rightarrow> nat \<Rightarrow> nat \<Rightarrow> real list" where
  "cell sn j i =
     (let h = noise sn (real i * 128 / real WIDTH) (real j * 128 / real WIDTH)
      in [h, h, 0, 1])"

definition row :: "(real \<Rightarrow> real \<Rightarrow> real) \<Rightarrow> nat \<Rightarrow> real list" where
  "row sn j = concat (map (cell sn j) [0..<WIDTH])"


subsection \<open>The objects of the scene\<close>

text \<open>
  A \<^verbatim>\<open>Vector3\<close> and a \<^verbatim>\<open>Matrix4\<close> (its sixteen \<^verbatim>\<open>elements\<close>, column by column) are
  objects that several places hold by reference: \<^verbatim>\<open>this.#sphere.position\<close> is stored in
  uniforms as the object itself. The scene therefore keeps them in two stores, addressed
  by the name of the object; an object that does not exist yet is absent from its store,
  and reading a property of it throws a \<^verbatim>\<open>TypeError\<close>.
\<close>

datatype error = TypeError

record Vector3 =
  vec_x :: real
  vec_y :: real
  vec_z :: real

type_synonym Matrix4 = "real list"

definition identity4 :: Matrix4 where
  "identity4 = [1, 0, 0, 0,  0, 1, 0, 0,  0, 0, 1, 0,  0, 0, 0, 1]"

datatype vec_ref = SpherePosition | CameraPosition | WaterCameraPos

datatype mat_ref = SphereMatrixWorld | PlaneMatrixWorld

text \<open>
  The value of a uniform: a number, a \<^verbatim>\<open>Vector2\<close> (never shared, so held by value), a
  reference to a \<^verbatim>\<open>Vector3\<close> or a \<^verbatim>\<open>Matrix4\<close>, the texture of one of the render targets of
  the compute pipeline (by its index), or an object the model does not look into.
\<close>

datatype uniform =
  UNull
| UNumber real
| UVector2 real real
| UVector3 vec_ref
| UMatrix4 mat_ref
| UTexture nat
| UOpaque string

text \<open>What a shader reads from a uniform when it runs: references are followed.\<close>

datatype shader_value =
  SNull
| SNumber real
| SVector2 real real
| SVector3 Vector3
| SMatrix4 Matrix4
| STexture nat
| SOpaque string
| SDangling

datatype uniform_set = Water | Heightmap | Agent

text \<open>
  The calls a frame and the setup make, in the order they are made. Methods that only
  build scenery (\<^verbatim>\<open>setLights\<close>, \<^verbatim>\<open>setGround\<close>, ...) are recorded by name.
\<close>

datatype event =
  RequestAnimationFrame
| PerformanceNow
| StepAgent
| GpuCompute
| UniformWrite uniform_set string
| ConsoleLog
| ConsoleError string
| RendererRender
| StatsUpdate
| Call string

text \<open>
  What the file takes from outside: the noise instance (\<^verbatim>\<open>new SimplexNoise()\<close> is called
  with no argument when the module is loaded, so the file passes it no seed and each run
  has the instance that three.js built for it), the heightmap fragment shader
  (\<^verbatim>\<open>heightmap.frag\<close>, run on the uniforms it reads and the previous heightmap), the pixel
  array of a fresh texture (\<^verbatim>\<open>gpuCompute.createTexture()\<close>), the result of
  \<^verbatim>\<open>gpuCompute.init()\<close> (\<^verbatim>\<open>null\<close> or an error message), and the world matrices that
  \<^verbatim>\<open>renderer.render\<close> recomputes in place from the positions.
\<close>

record env =
  simplex :: "real \<Rightarrow> real \<Rightarrow> real"
  heightmapFragmentShader :: "(string \<rightharpoonup> shader_value) \<Rightarrow> real list \<Rightarrow> real list"
  createTexture :: "real list"
  gpuInit :: "string option"
  updateMatrixWorld :: "(vec_ref \<rightharpoonup> Vector3) \<Rightarrow> mat_ref \<Rightarrow> Matrix4 \<Rightarrow> Matrix4"

text \<open>
  The module-level variables and the fields of \<^verbatim>\<open>MainScene\<close> that the frame loop uses.
  An uniform set that is still \<^verbatim>\<open>undefined\<close> is the empty map: every access to it throws.
\<close>

record scene =
  lastTimestamp :: real
  deltaTime :: real
  currentAngle :: "real option"
  vectors :: "vec_ref \<rightharpoonup> Vector3"
  matrices :: "mat_ref \<rightharpoonup> Matrix4"
  waterUniforms :: "string \<rightharpoonup> uniform"
  heightmapUniforms :: "string \<rightharpoonup> uniform"
  agentUniforms :: "string \<rightharpoonup> uniform"
  heightmapDefines :: "string \<rightharpoonup> string"
  renderTargets :: "real list list"
  currentTextureIndex :: nat
  trace :: "event list"

text \<open>
  A method either returns or throws; in both cases the mutations it made so far stay.
\<close>

datatype outcome = Returned scene | Thrown error scene

fun run :: "(scene \<Rightarrow> outcome) list \<Rightarrow> scene \<Rightarrow> outcome" where
  "run [] s = Returned s"
| "run (f # fs) s = (case f s of Returned s' \<Rightarrow> run fs s' | Thrown e s' \<Rightarrow> Thrown e s')"

fun the_scene :: "outcome \<Rightarrow> scene" where
  "the_scene (Returned s) = s"
| "the_scene (Thrown e s) = s"

definition log :: "event list \<Rightarrow> scene \<Rightarrow> scene" where
  "log es s = s\<lparr>trace := trace s @ es\<rparr>"

definition call :: "string \<Rightarrow> scene \<Rightarrow> outcome" where
  "call name s = Returned (log [Call name] s)"

subsection \<open>\<^verbatim>\<open>stepAgent\<close>\<close>

text \<open>
  \<^verbatim>\<open>this.currentAngle || 0\<close> is \<open>0\<close> while the field is undefined (and when it is \<open>0\<close>).
  The angle is stored before the position of the sphere is touched.
\<close>

definition stepAgent :: "real \<Rightarrow> scene \<Rightarrow> outcome" where
  "stepAgent dt s =
     (let radius = BOUNDS / 4;
          speed = 2 * pi * radius / 2;
          angle = (case currentAngle s of None \<Rightarrow> 0 | Some a \<Rightarrow> a) + (speed * dt) / radius;
          s1 = (log [StepAgent] s)\<lparr>currentAngle := Some angle\<rparr>;
          x = radius * cos angle;
          z = radius * sin angle
      in case vectors s1 SpherePosition of
           None \<Rightarrow> Thrown TypeError s1
         | Some position \<Rightarrow>
             Returned (s1\<lparr>vectors := (vectors s1)(SpherePosition \<mapsto> position\<lparr>vec_x := x, vec_z := z\<rparr>)\<rparr>))"

subsection \<open>The compute pipeline\<close>

definition resolve :: "scene \<Rightarrow> uniform \<Rightarrow> shader_value" where
  "resolve s u =
     (case u of
        UNull \<Rightarrow> SNull
      | UNumber r \<Rightarrow> SNumber r
      | UVector2 a b \<Rightarrow> SVector2 a b
      | UVector3 r \<Rightarrow> (case vectors s r of None \<Rightarrow> SDangling | Some v \<Rightarrow> SVector3 v)
      | UMatrix4 r \<Rightarrow> (case matrices s r of None \<Rightarrow> SDangling | Some m \<Rightarrow> SMatrix4 m)
      | UTexture k \<Rightarrow> STexture k
      | UOpaque n \<Rightarrow> SOpaque n)"

definition shader_inputs :: "scene \<Rightarrow> string \<rightharpoonup> shader_value" where
  "shader_inputs s = (\<lambda>k. map_option (resolve s) (heightmapUniforms s k))"

text \<open>
  Modelled from the spec: \<^verbatim>\<open>gpuCompute.compute()\<close> and
  \<^verbatim>\<open>gpuCompute.getCurrentRenderTarget()\<close> belong to \<^verbatim>\<open>GPUComputationRenderer\<close>, which is
  not among the source files. The specification (Double-Buffered Simulation State) says:
  the state owns exactly two heightmap textures and a cursor indicating which is current;
  a step reads from the current one, writes into the other, then the cursor flips; the
  accessor returns the just-computed result. A render target that was never allocated is
  \<^verbatim>\<open>undefined\<close>, and using it throws.
\<close>

definition compute :: "env \<Rightarrow> scene \<Rightarrow> outcome" where
  "compute e s =
     (let s1 = log [GpuCompute] s;
          current = currentTextureIndex s1;
          other = (if current = 0 then 1 else 0)
      in if current < length (renderTargets s1) \<and> other < length (renderTargets s1)
         then Returned (s1\<lparr>renderTargets :=
                  (renderTargets s1)[other :=
                     heightmapFragmentShader e (shader_inputs s1) (renderTargets s1 ! current)],
                currentTextureIndex := other\<rparr>)
         else Thrown TypeError s1)"

definition getCurrentRenderTarget :: "scene \<Rightarrow> uniform option" where
  "getCurrentRenderTarget s =
     (if currentTextureIndex s < length (renderTargets s)
      then Some (UTexture (currentTextureIndex s)) else None)"

definition currentHeightmap :: "scene \<Rightarrow> real list" where
  "currentHeightmap s = renderTargets s ! currentTextureIndex s"

subsection \<open>\<^verbatim>\<open>render\<close>\<close>

definition uniforms_of :: "uniform_set \<Rightarrow> scene \<Rightarrow> string \<rightharpoonup> uniform" where
  "uniforms_of u s =
     (case u of Water \<Rightarrow> waterUniforms s | Heightmap \<Rightarrow> heightmapUniforms s
      | Agent \<Rightarrow> agentUniforms s)"

definition put_uniforms :: "uniform_set \<Rightarrow> (string \<rightharpoonup> uniform) \<Rightarrow> scene \<Rightarrow> scene" where
  "put_uniforms u m s =
     (case u of Water \<Rightarrow> s\<lparr>waterUniforms := m\<rparr> | Heightmap \<Rightarrow> s\<lparr>heightmapUniforms := m\<rparr>
      | Agent \<Rightarrow> s\<lparr>agentUniforms := m\<rparr>)"

text \<open>
  \<^verbatim>\<open>uniforms[name].value = rhs\<close>: throws when the set has no uniform of that name, or
  when evaluating the right-hand side throws.
\<close>

definition assign :: "uniform_set \<Rightarrow> string \<Rightarrow> (scene \<Rightarrow> uniform option) \<Rightarrow> scene \<Rightarrow> outcome" where
  "assign u name rhs s =
     (case uniforms_of u s name of
        None \<Rightarrow> Thrown TypeError s
      | Some old \<Rightarrow>
          (case rhs s of
             None \<Rightarrow> Thrown TypeError s
           | Some v \<Rightarrow> Returned (log [UniformWrite u name] (put_uniforms u ((uniforms_of u s)(name \<mapsto> v)) s))))"

definition sphere_position :: "scene \<Rightarrow> uniform option" where
  "sphere_position s =
     (case vectors s SpherePosition of None \<Rightarrow> None | Some v \<Rightarrow> Some (UVector3 SpherePosition))"

definition sphere_matrixWorld :: "scene \<Rightarrow> uniform option" where
  "sphere_matrixWorld s =
     (case matrices s SphereMatrixWorld of None \<Rightarrow> None | Some m \<Rightarrow> Some (UMatrix4 SphereMatrixWorld))"

definition plane_matrixWorld :: "scene \<Rightarrow> uniform option" where
  "plane_matrixWorld s =
     (case matrices s PlaneMatrixWorld of None \<Rightarrow> None | Some m \<Rightarrow> Some (UMatrix4 PlaneMatrixWorld))"

text \<open>\<^verbatim>\<open>waterUniforms['cameraPos'].value.copy(this.#camera.position)\<close> writes into the
  vector the uniform holds.\<close>

definition copy_cameraPos :: "scene \<Rightarrow> outcome" where
  "copy_cameraPos s =
     (case waterUniforms s ''cameraPos'' of
        Some (UVector3 r) \<Rightarrow>
          (case vectors s CameraPosition of
             None \<Rightarrow> Thrown TypeError s
           | Some c \<Rightarrow> Returned (log [UniformWrite Water ''cameraPos''] (s\<lparr>vectors := (vectors s)(r \<mapsto> c)\<rparr>)))
      | _ \<Rightarrow> Thrown TypeError s)"

definition console_log :: "(scene \<Rightarrow> uniform option) \<Rightarrow> scene \<Rightarrow> outcome" where
  "console_log arg s =
     (case arg s of None \<Rightarrow> Thrown TypeError s | Some v \<Rightarrow> Returned (log [ConsoleLog] s))"

definition renderer_render :: "env \<Rightarrow> scene \<Rightarrow> outcome" where
  "renderer_render e s =
     Returned (log [RendererRender]
       (s\<lparr>matrices := (\<lambda>r. map_option (updateMatrixWorld e (vectors s) r) (matrices s r))\<rparr>))"

definition render :: "env \<Rightarrow> scene \<Rightarrow> outcome" where
  "render e =
     run [compute e,
          assign Water ''heightmap'' getCurrentRenderTarget,
          copy_cameraPos,
          assign Water ''agentPosition'' sphere_position,
          assign Water ''tf_agent_to_world'' sphere_matrixWorld,
          assign Heightmap ''agentPosition'' sphere_position,
          assign Heightmap ''tf_water_to_world'' plane_matrixWorld,
          assign Agent ''heightmap'' getCurrentRenderTarget,
          assign Agent ''tf_agent_to_world'' sphere_matrixWorld,
          console_log sphere_position,
          console_log plane_matrixWorld,
          renderer_render e]"

subsection \<open>\<^verbatim>\<open>animate\<close>\<close>

text \<open>The argument \<open>now\<close> is what \<^verbatim>\<open>performance.now()\<close> returns in this frame.\<close>

definition tick :: "real \<Rightarrow> scene \<Rightarrow> outcome" where
  "tick now s =
     (let s1 = log [RequestAnimationFrame, PerformanceNow] s;
          currentTimestamp = now
      in Returned (s1\<lparr>deltaTime := (currentTimestamp - lastTimestamp s1) / 1000,
                      lastTimestamp := currentTimestamp\<rparr>))"

definition kinematics :: "real \<Rightarrow> scene \<Rightarrow> outcome" where
  "kinematics now = run [tick now, (\<lambda>s. stepAgent (deltaTime s) s)]"

definition stats_update :: "scene \<Rightarrow> outcome" where
  "stats_update s = Returned (log [StatsUpdate] s)"

definition animate :: "env \<Rightarrow> real \<Rightarrow> scene \<Rightarrow> outcome" where
  "animate e now = run [tick now, (\<lambda>s. stepAgent (deltaTime s) s), render e, stats_update]"

text \<open>The events a frame adds to the trace.\<close>

definition frame_events :: "env \<Rightarrow> real \<Rightarrow> scene \<Rightarrow> event list" where
  "frame_events e now s = drop (length (trace s)) (trace (the_scene (animate e now s)))"

text \<open>\<open>precedes a b es\<close>: both events occur in \<open>es\<close>, and \<open>a\<close> first occurs before \<open>b\<close> does.\<close>

fun precedes :: "event \<Rightarrow> event \<Rightarrow> event list \<Rightarrow> bool" where
  "precedes a b [] = False"
| "precedes a b (x # xs) = (if x = b then False else if x = a then b \<in> set xs else precedes a b xs)"

subsection \<open>Setup: \<^verbatim>\<open>setAgent\<close>, \<^verbatim>\<open>setWater\<close>, \<^verbatim>\<open>init\<close>\<close>

definition setAgent :: "scene \<Rightarrow> outcome" where
  "setAgent s =
     (let s1 = log [Call ''setAgent''] s;
          uniforms = [''heightmap'' \<mapsto> UNull,
                      ''tf_agent_to_world'' \<mapsto> UNull,
                      ''waterWidth'' \<mapsto> UNumber BOUNDS,
                      ''waterDepth'' \<mapsto> UNumber BOUNDS,
                      ''water_resting_height'' \<mapsto> UNumber (- BOUNDS / 16)]
      in Returned (s1\<lparr>agentUniforms := uniforms,
                      vectors := (vectors s1)(SpherePosition \<mapsto> \<lparr>vec_x = 0, vec_y = 0, vec_z = 0\<rparr>),
                      matrices := (matrices s1)(SphereMatrixWorld \<mapsto> identity4)\<rparr>))"

text \<open>
  \<^verbatim>\<open>setWater\<close>. The uniforms \<^verbatim>\<open>diffuse\<close>, \<^verbatim>\<open>specular\<close>, \<^verbatim>\<open>shininess\<close> and \<^verbatim>\<open>opacity\<close> come with
  the Phong uniforms of three.js. The uniforms of the heightmap variable are created by
  plain assignment, so \<^verbatim>\<open>agentPosition\<close> holds the position object of the sphere itself.

  Modelled from the spec: what \<^verbatim>\<open>gpuCompute.init()\<close> leaves behind is not in the source
  files. The specification says that two heightmap textures exist from setup on and that
  the noise output is the starting heightmap; when \<^verbatim>\<open>init\<close> reports an error no render
  target is allocated.
\<close>

definition setWater :: "env \<Rightarrow> scene \<Rightarrow> outcome" where
  "setWater e s =
     (let s1 = log [Call ''setWater''] s;
          uniforms = [''heightmap'' \<mapsto> UNull,
                      ''envMap'' \<mapsto> UOpaque ''scene.background'',
                      ''cameraPos'' \<mapsto> UVector3 WaterCameraPos,
                      ''reflectionStrength'' \<mapsto> UNumber 0.6,
                      ''transparency'' \<mapsto> UNumber 0.8,
                      ''agentPosition'' \<mapsto> UNull,
                      ''tf_agent_to_world'' \<mapsto> UNull,
                      ''diffuse'' \<mapsto> UOpaque ''Color(0x0040C0)'',
                      ''specular'' \<mapsto> UOpaque ''Color(0x111111)'',
                      ''shininess'' \<mapsto> UNumber (max 50 0.0001),
                      ''opacity'' \<mapsto> UOpaque ''material.opacity''];
          s2 = s1\<lparr>waterUniforms := uniforms,
                  vectors := (vectors s1)(WaterCameraPos \<mapsto> \<lparr>vec_x = 0, vec_y = 0, vec_z = 0\<rparr>),
                  matrices := (matrices s1)(PlaneMatrixWorld \<mapsto> identity4)\<rparr>;
          heightmap0 = fillTexture (simplex e) (createTexture e);
          uniforms4 = [''mousePos'' \<mapsto> UVector2 10000 10000,
                       ''mouseSize'' \<mapsto> UNumber 20.0,
                       ''viscosityConstant'' \<mapsto> UNumber 0.98,
                       ''heightCompensation'' \<mapsto> UNumber 0]
      in case sphere_position s2 of
           None \<Rightarrow> Thrown TypeError (s2\<lparr>heightmapUniforms := uniforms4\<rparr>)
         | Some position \<Rightarrow>
             (let s3 = s2\<lparr>heightmapUniforms :=
                           uniforms4(''agentPosition'' \<mapsto> position,
                                     ''tf_water_to_world'' \<mapsto> UMatrix4 PlaneMatrixWorld),
                         heightmapDefines := [''BOUNDS'' \<mapsto> ''512.0'']\<rparr>
              in case gpuInit e of
                   None \<Rightarrow> Returned (s3\<lparr>renderTargets := [heightmap0, heightmap0],
                                        currentTextureIndex := 0\<rparr>)
                 | Some error \<Rightarrow> Returned (log [ConsoleError error] s3)))"

definition create_camera :: "scene \<Rightarrow> outcome" where
  "create_camera s =
     Returned (s\<lparr>vectors := (vectors s)(CameraPosition \<mapsto> \<lparr>vec_x = 350, vec_y = 400, vec_z = - 500\<rparr>)\<rparr>)"

text \<open>Everything \<^verbatim>\<open>init\<close> does before it starts the frame loop, then the first frame.\<close>

definition setup_steps :: "env \<Rightarrow> (scene \<Rightarrow> outcome) list" where
  "setup_steps e =
     [create_camera,
      call ''setLights'',
      call ''setControls'',
      call ''setAxesHelper'',
      setAgent,
      setWater e,
      call ''setGround'',
      call ''setWalls'',
      call ''handleResize'',
      call ''events'']"

definition init :: "env \<Rightarrow> real \<Rightarrow> scene \<Rightarrow> outcome" where
  "init e now = run (setup_steps e @ [animate e now])"

text \<open>The module as loaded at time \<open>t0\<close>, before \<^verbatim>\<open>new MainScene()\<close>.\<close>

definition module_loaded :: "real \<Rightarrow> scene" where
  "module_loaded t0 =
     \<lparr>lastTimestamp = t0, deltaTime = 0, currentAngle = None,
      vectors = Map.empty, matrices = Map.empty,
      waterUniforms = Map.empty, heightmapUniforms = Map.empty, agentUniforms = Map.empty,
      heightmapDefines = Map.empty, renderTargets = [], currentTextureIndex = 0, trace = []\<rparr>"

text \<open>What setup establishes and every frame keeps: the objects and uniforms that a frame
  touches exist, and the simulation uniforms hold the shared objects.\<close>

definition ready :: "scene \<Rightarrow> bool" where
  "ready s =
     (vectors s SpherePosition \<noteq> None \<and> vectors s CameraPosition \<noteq> None \<and>
      matrices s SphereMatrixWorld \<noteq> None \<and> matrices s PlaneMatrixWorld \<noteq> None \<and>
      waterUniforms s ''cameraPos'' = Some (UVector3 WaterCameraPos) \<and>
      waterUniforms s ''heightmap'' \<noteq> None \<and>
      waterUniforms s ''agentPosition'' \<noteq> None \<and>
      waterUniforms s ''tf_agent_to_world'' \<noteq> None \<and>
      heightmapUniforms s ''agentPosition'' = Some (UVector3 SpherePosition) \<and>
      heightmapUniforms s ''tf_water_to_world'' = Some (UMatrix4 PlaneMatrixWorld) \<and>
      agentUniforms s ''heightmap'' \<noteq> None \<and>
      agentUniforms s ''tf_agent_to_world'' \<noteq> None \<and>
      length (renderTargets s) = 2 \<and> currentTextureIndex s < 2)"

text \<open>A sample environment and the scene it sets up, for concrete runs.\<close>

definition sample_env :: env where
  "sample_env =
     \<lparr>simplex = (\<lambda>x y. 0), heightmapFragmentShader = (\<lambda>inputs h. h),
      createTexture = replicate (4 * WIDTH * WIDTH) 0, gpuInit = None,
      updateMatrixWorld = (\<lambda>vs r m. m)\<rparr>"

definition sample_scene :: scene where
  "sample_scene = the_scene (run (setup_steps sample_env) (module_loaded 0))"

text \<open>The sample environment with a compute pipeline that fails to initialise.\<close>

definition failing_env :: env where
  "failing_env = sample_env\<lparr>gpuInit := Some ''unsupported''\<rparr>"

text \<open>The sample environment in a run whose \<^verbatim>\<open>new SimplexNoise()\<close> built another instance.\<close>

definition second_env :: env where
  "second_env = sample_env\<lparr>simplex := (\<lambda>x y. x / 1000)\<rparr>"

section \<open>Properties of the noise field\<close>

lemma noise_loop_sum:
  "i \<le> 15 \<Longrightarrow>
   noise_loop sn x y i (spec_amplitude i) (spec_frequency i) r =
     r + (\<Sum>k = i..<15. spec_amplitude k * sn (x * spec_frequency k) (y * spec_frequency k))"
proof (induction "15 - i" arbitrary: i r)
  case 0
  then have "i = 15" by simp
  then show ?case by (simp add: noise_loop.simps)
next
  case (Suc n)
  then have lt: "i < 15" and le: "Suc i \<le> 15" and n: "n = 15 - Suc i" by simp_all
  have "noise_loop sn x y i (spec_amplitude i) (spec_frequency i) r =
        noise_loop sn x y (Suc i) (spec_amplitude (Suc i)) (spec_frequency (Suc i))
          (r + spec_amplitude i * sn (x * spec_frequency i) (y * spec_frequency i))"
    using lt by (subst noise_loop.simps) simp
  also have "\<dots> = (r + spec_amplitude i * sn (x * spec_frequency i) (y * spec_frequency i)) +
      (\<Sum>k = Suc i..<15. spec_amplitude k * sn (x * spec_frequency k) (y * spec_frequency k))"
    by (rule Suc.hyps(1) [OF n le])
  also have "\<dots> = r +
      (\<Sum>k = i..<15. spec_amplitude k * sn (x * spec_frequency k) (y * spec_frequency k))"
    using lt by (simp add: sum.atLeast_Suc_lessThan)
  finally show ?case .
qed

lemma noise_eq_spec_noise: "noise sn x y = spec_noise sn x y"
  using noise_loop_sum [of 0 sn x y 0]
  by (simp add: noise_def spec_noise_def waterMaxHeight_def)

subsection \<open>The heightmap that \<^verbatim>\<open>fillTexture\<close> writes\<close>

lemma write_cell_eq:
  assumes "p + 4 \<le> length pixels"
  shows "write_cell sn j i p pixels = take p pixels @ cell sn j i @ drop (p + 4) pixels"
proof (rule nth_equalityI)
  show "length (write_cell sn j i p pixels) = length (take p pixels @ cell sn j i @ drop (p + 4) pixels)"
    using assms by (simp add: write_cell_def cell_def Let_def)
next
  fix q assume "q < length (write_cell sn j i p pixels)"
  then have q: "q < length pixels" by (simp add: write_cell_def Let_def)
  consider "q < p" | "q = p" | "q = p + 1" | "q = p + 2" | "q = p + 3" | "p + 4 \<le> q" by linarith
  then show "write_cell sn j i p pixels ! q = (take p pixels @ cell sn j i @ drop (p + 4) pixels) ! q"
  proof cases
    case 6
    then obtain d where d: "q = p + 4 + d" using le_Suc_ex by blast
    show ?thesis using assms q unfolding d
      by (simp add: write_cell_def cell_def Let_def nth_append)
  qed (use assms q in \<open>simp_all add: write_cell_def cell_def Let_def nth_append\<close>)
qed

lemma length_cell: "length (cell sn j i) = 4"
  by (simp add: cell_def Let_def)

lemma length_cells: "length (concat (map (cell sn j) [a..<b])) = 4 * (b - a)"
  by (induction b) (simp_all add: length_cell Suc_diff_le)

lemma length_row: "length (row sn j) = 4 * WIDTH"
  by (simp add: row_def length_cells)

lemma fill_inner_eq:
  "i \<le> WIDTH \<Longrightarrow> p + 4 * (WIDTH - i) \<le> length pixels \<Longrightarrow>
   fill_inner sn j i p pixels =
     (p + 4 * (WIDTH - i),
      take p pixels @ concat (map (cell sn j) [i..<WIDTH]) @ drop (p + 4 * (WIDTH - i)) pixels)"
proof (induction "WIDTH - i" arbitrary: i p pixels)
  case 0
  then have "i = WIDTH" by simp
  then show ?case by (simp add: fill_inner.simps)
next
  case (Suc n)
  then have lt: "i < WIDTH" and le: "Suc i \<le> WIDTH" and n: "n = WIDTH - Suc i" by simp_all
  have p4: "p + 4 \<le> length pixels" using Suc.prems lt by simp
  define px where "px = write_cell sn j i p pixels"
  have px: "px = take p pixels @ cell sn j i @ drop (p + 4) pixels"
    unfolding px_def by (rule write_cell_eq [OF p4])
  have len: "length px = length pixels" using p4 by (simp add: px length_cell)
  have bound: "(p + 4) + 4 * (WIDTH - Suc i) \<le> length px"
    using Suc.prems lt by (simp add: len)
  have tk: "take (p + 4) px = take p pixels @ cell sn j i"
    using p4 by (simp add: px length_cell)
  have dr: "drop ((p + 4) + 4 * (WIDTH - Suc i)) px = drop (p + 4 * (WIDTH - i)) pixels"
  proof -
    have "drop ((p + 4) + 4 * (WIDTH - Suc i)) px = drop (4 * (WIDTH - Suc i)) (drop (p + 4) px)"
      by (simp add: add.commute)
    also have "drop (p + 4) px = drop (p + 4) pixels"
      using p4 by (simp add: px length_cell)
    also have "drop (4 * (WIDTH - Suc i)) (drop (p + 4) pixels) = drop (p + 4 * (WIDTH - i)) pixels"
      using lt by (simp add: algebra_simps Suc_diff_Suc)
    finally show ?thesis .
  qed
  have "fill_inner sn j i p pixels = fill_inner sn j (Suc i) (p + 4) px"
    using lt by (subst fill_inner.simps) (simp add: px_def)
  also have "\<dots> = ((p + 4) + 4 * (WIDTH - Suc i),
      take (p + 4) px @ concat (map (cell sn j) [Suc i..<WIDTH]) @
      drop ((p + 4) + 4 * (WIDTH - Suc i)) px)"
    by (rule Suc.hyps(1) [OF n le bound])
  also have "\<dots> = (p + 4 * (WIDTH - i),
      take p pixels @ concat (map (cell sn j) [i..<WIDTH]) @ drop (p + 4 * (WIDTH - i)) pixels)"
    using lt by (simp add: tk dr upt_conv_Cons)
  finally show ?case .
qed

lemma fill_outer_eq:
  "j \<le> WIDTH \<Longrightarrow> p + 4 * WIDTH * (WIDTH - j) \<le> length pixels \<Longrightarrow>
   fill_outer sn j p pixels =
     take p pixels @ concat (map (row sn) [j..<WIDTH]) @ drop (p + 4 * WIDTH * (WIDTH - j)) pixels"
proof (induction "WIDTH - j" arbitrary: j p pixels)
  case 0
  then have "j = WIDTH" by simp
  then show ?case by (simp add: fill_outer.simps)
next
  case (Suc n)
  then have lt: "j < WIDTH" and le: "Suc j \<le> WIDTH" and n: "n = WIDTH - Suc j" by simp_all
  have e: "WIDTH - j = Suc (WIDTH - Suc j)" using lt by simp
  have split: "4 * WIDTH * (WIDTH - j) = 4 * WIDTH + 4 * WIDTH * (WIDTH - Suc j)"
    by (subst e) simp
  have pw: "p + 4 * WIDTH \<le> length pixels" using Suc.prems(2) split by simp
  define px where "px = take p pixels @ row sn j @ drop (p + 4 * WIDTH) pixels"
  have inner: "fill_inner sn j 0 p pixels = (p + 4 * WIDTH, px)"
    using fill_inner_eq [of 0 p pixels sn j] pw by (simp add: px_def row_def)
  have len: "length px = length pixels" using pw by (simp add: px_def length_row)
  have bound: "(p + 4 * WIDTH) + 4 * WIDTH * (WIDTH - Suc j) \<le> length px"
    using Suc.prems(2) split by (simp add: len)
  have tk: "take (p + 4 * WIDTH) px = take p pixels @ row sn j"
    using pw by (simp add: px_def length_row)
  have dr: "drop ((p + 4 * WIDTH) + 4 * WIDTH * (WIDTH - Suc j)) px =
            drop (p + 4 * WIDTH * (WIDTH - j)) pixels"
  proof -
    have "drop ((p + 4 * WIDTH) + 4 * WIDTH * (WIDTH - Suc j)) px =
          drop (4 * WIDTH * (WIDTH - Suc j)) (drop (p + 4 * WIDTH) px)"
      by (simp add: add.commute)
    also have "drop (p + 4 * WIDTH) px = drop (p + 4 * WIDTH) pixels"
      using pw by (simp add: px_def length_row)
    also have "drop (4 * WIDTH * (WIDTH - Suc j)) (drop (p + 4 * WIDTH) pixels) =
               drop (p + 4 * WIDTH * (WIDTH - j)) pixels"
      by (simp add: split add_ac)
    finally show ?thesis .
  qed
  have "fill_outer sn j p pixels = fill_outer sn (Suc j) (p + 4 * WIDTH) px"
    using lt by (subst fill_outer.simps) (simp add: inner)
  also have "\<dots> = take (p + 4 * WIDTH) px @ concat (map (row sn) [Suc j..<WIDTH]) @
      drop ((p + 4 * WIDTH) + 4 * WIDTH * (WIDTH - Suc j)) px"
    by (rule Suc.hyps(1) [OF n le bound])
  also have "\<dots> = take p pixels @ concat (map (row sn) [j..<WIDTH]) @
      drop (p + 4 * WIDTH * (WIDTH - j)) pixels"
    using lt by (simp add: tk dr upt_conv_Cons)
  finally show ?case .
qed

lemma fillTexture_eq:
  "length pixels = 4 * WIDTH * WIDTH \<Longrightarrow> fillTexture sn pixels = concat (map (row sn) [0..<WIDTH])"
  using fill_outer_eq [of 0 0 pixels sn] by (simp add: fillTexture_def)

lemma concat_blocks_nth:
  "(\<And>k. k < n \<Longrightarrow> length (f k) = m) \<Longrightarrow> c < n \<Longrightarrow> d < m \<Longrightarrow>
   concat (map f [0..<n]) ! (c * m + d) = f c ! d"
proof (induction n)
  case 0
  then show ?case by simp
next
  case (Suc n)
  have len: "length (concat (map f [0..<n])) = n * m"
    using Suc.prems(1) by (induction n) simp_all
  show ?case
  proof (cases "c < n")
    case True
    then have "c * m + d < n * m"
      using Suc.prems(3) by (metis add.commute mult_Suc less_le_trans add_less_cancel_left Suc_leI mult_le_mono1)
    then show ?thesis using Suc True by (simp add: nth_append len)
  next
    case False
    then have "c = n" using Suc.prems(2) by simp
    then show ?thesis by (simp add: nth_append len)
  qed
qed

lemma fillTexture_cell:
  assumes "length pixels = 4 * WIDTH * WIDTH" "i < WIDTH" "j < WIDTH" "d < 4"
  shows "fillTexture sn pixels ! (4 * (j * WIDTH + i) + d) = cell sn j i ! d"
proof -
  have "fillTexture sn pixels ! (4 * (j * WIDTH + i) + d) =
        concat (map (row sn) [0..<WIDTH]) ! (j * (4 * WIDTH) + (i * 4 + d))"
    by (simp add: fillTexture_eq [OF assms(1)] algebra_simps)
  also have "\<dots> = row sn j ! (i * 4 + d)"
  proof (rule concat_blocks_nth)
    show "length (row sn k) = 4 * WIDTH" for k by (rule length_row)
    show "j < WIDTH" by (rule assms(3))
    show "i * 4 + d < 4 * WIDTH" using assms(2,4) by simp
  qed
  also have "\<dots> = cell sn j i ! d"
    unfolding row_def
  proof (rule concat_blocks_nth)
    show "length (cell sn j k) = 4" for k by (rule length_cell)
    show "i < WIDTH" by (rule assms(2))
    show "d < 4" by (rule assms(4))
  qed
  finally show ?thesis .
qed

lemma length_fillTexture:
  "length pixels = 4 * WIDTH * WIDTH \<Longrightarrow> length (fillTexture sn pixels) = 4 * WIDTH * WIDTH"
proof -
  assume a: "length pixels = 4 * WIDTH * WIDTH"
  have "length (concat (map (row sn) [0..<n])) = n * (4 * WIDTH)" for n
    by (induction n) (simp_all add: length_row)
  then show ?thesis by (simp add: fillTexture_eq [OF a])
qed

text \<open>
  Claim C2. The noise height is the sum of fifteen octaves of the simplex noise, the
  amplitude starting at 10 and multiplied after octave \<open>i\<close> by \<open>0.53 + 0.025 * i\<close>, the
  frequency starting at \<open>0.025\<close> and multiplied by \<open>1.25\<close> after each octave
  (\<open>spec_noise\<close>); and the height that \<^verbatim>\<open>fillTexture\<close> stores for the grid coordinate
  \<open>(i, j)\<close>, in channel 0 of its cell, is that sum at \<open>(i, j)\<close>.
\<close>

theorem C2_noise_octaves:
  assumes "length pixels = 4 * WIDTH * WIDTH" and "i < WIDTH" and "j < WIDTH"
  shows "noise sn x y = spec_noise sn x y \<and>
         fillTexture sn pixels ! (4 * (j * WIDTH + i)) = spec_noise sn (real i) (real j)"
proof
  show "noise sn x y = spec_noise sn x y" by (rule noise_eq_spec_noise)
  have "fillTexture sn pixels ! (4 * (j * WIDTH + i) + 0) = cell sn j i ! 0"
    using assms by (intro fillTexture_cell) simp_all
  then show "fillTexture sn pixels ! (4 * (j * WIDTH + i)) = spec_noise sn (real i) (real j)"
    by (simp add: cell_def Let_def noise_eq_spec_noise WIDTH_def)
qed

theorem C2_noise_octaves_witness:
  "length (replicate (4 * WIDTH * WIDTH) (0::real)) = 4 * WIDTH * WIDTH \<and> 3 < WIDTH \<and> 5 < WIDTH \<and>
   noise (\<lambda>x y. x + y) 7 9 = spec_noise (\<lambda>x y. x + y) 7 9 \<and>
   fillTexture (\<lambda>x y. x + y) (replicate (4 * WIDTH * WIDTH) 0) ! (4 * (5 * WIDTH + 3)) =
     spec_noise (\<lambda>x y. x + y) (real 3) (real 5)"
proof -
  have l: "length (replicate (4 * WIDTH * WIDTH) (0::real)) = 4 * WIDTH * WIDTH" by simp
  have i: "3 < WIDTH" and j: "5 < WIDTH" by (simp_all add: WIDTH_def)
  from C2_noise_octaves [OF l i j, of "\<lambda>x y. x + y" 7 9] l i j show ?thesis by blast
qed

lemma spec_amplitude_pos: "0 < spec_amplitude k"
  by (induction k) (simp_all add: mult_pos_pos add_pos_nonneg)

lemma spec_frequency_pos: "0 < spec_frequency k"
  by (induction k) simp_all

lemma WIDTH_pos: "0 < WIDTH"
  by (simp add: WIDTH_def)

lemma cell_same_samples:
  assumes "\<And>k. k < 15 \<Longrightarrow>
     sn1 (real i * 128 / real WIDTH * spec_frequency k) (real j * 128 / real WIDTH * spec_frequency k) =
     sn2 (real i * 128 / real WIDTH * spec_frequency k) (real j * 128 / real WIDTH * spec_frequency k)"
  shows "cell sn1 j i = cell sn2 j i"
proof -
  have "spec_noise sn1 (real i * 128 / real WIDTH) (real j * 128 / real WIDTH) =
        spec_noise sn2 (real i * 128 / real WIDTH) (real j * 128 / real WIDTH)"
    unfolding spec_noise_def
  proof (rule sum.cong [OF refl])
    fix k :: nat
    assume "k \<in> {0..<15}"
    then have "k < 15" by simp
    from assms [OF this]
    show "spec_amplitude k *
            sn1 (real i * 128 / real WIDTH * spec_frequency k) (real j * 128 / real WIDTH * spec_frequency k) =
          spec_amplitude k *
            sn2 (real i * 128 / real WIDTH * spec_frequency k) (real j * 128 / real WIDTH * spec_frequency k)"
      by (simp only:)
  qed
  then show ?thesis by (simp add: cell_def Let_def noise_eq_spec_noise)
qed

lemma fillTexture_same_samples:
  assumes "length pixels1 = 4 * WIDTH * WIDTH" and "length pixels2 = 4 * WIDTH * WIDTH"
    and "\<And>i j k. i < WIDTH \<Longrightarrow> j < WIDTH \<Longrightarrow> k < 15 \<Longrightarrow>
     sn1 (real i * 128 / real WIDTH * spec_frequency k) (real j * 128 / real WIDTH * spec_frequency k) =
     sn2 (real i * 128 / real WIDTH * spec_frequency k) (real j * 128 / real WIDTH * spec_frequency k)"
  shows "fillTexture sn1 pixels1 = fillTexture sn2 pixels2"
proof -
  have r: "row sn1 j = row sn2 j" if "j < WIDTH" for j
  proof -
    have c: "cell sn1 j i = cell sn2 j i" if "i < WIDTH" for i
      by (rule cell_same_samples) (rule assms(3) [OF \<open>i < WIDTH\<close> \<open>j < WIDTH\<close>])
    have m: "map (cell sn1 j) [0..<WIDTH] = map (cell sn2 j) [0..<WIDTH]"
      by (rule map_cong [OF refl]) (simp add: c)
    show ?thesis unfolding row_def by (rule arg_cong [of _ _ concat]) (rule m)
  qed
  have m: "map (row sn1) [0..<WIDTH] = map (row sn2) [0..<WIDTH]"
    by (rule map_cong [OF refl]) (simp add: r)
  have "fillTexture sn1 pixels1 = concat (map (row sn1) [0..<WIDTH])"
    by (rule fillTexture_eq [OF assms(1)])
  also have "\<dots> = concat (map (row sn2) [0..<WIDTH])"
    by (rule arg_cong [of _ _ concat]) (rule m)
  also have "\<dots> = fillTexture sn2 pixels2"
    by (rule fillTexture_eq [OF assms(2), symmetric])
  finally show ?thesis .
qed

lemma sample_env_fields:
  "simplex sample_env = (\<lambda>x y. 0)" "createTexture sample_env = replicate (4 * WIDTH * WIDTH) 0"
  "gpuInit sample_env = None"
  "simplex second_env = (\<lambda>x y. x / 1000)" "createTexture second_env = replicate (4 * WIDTH * WIDTH) 0"
  "gpuInit second_env = None"
  by (simp_all add: sample_env_def second_env_def)

lemma setup_heightmap:
  assumes "gpuInit e = None"
  shows "currentHeightmap (the_scene (run (setup_steps e) (module_loaded t0))) =
         fillTexture (simplex e) (createTexture e)"
  using assms
  by (simp add: setup_steps_def module_loaded_def call_def create_camera_def setAgent_def
      setWater_def log_def sphere_position_def Let_def currentHeightmap_def)

text \<open>
  Claim C3, as stated, fails. The file gives the generator no seed: the noise instance is
  built with no argument, once per run. Two runs that are alike in everything the file
  controls, and whose instances differ, write different initial heightmaps.
\<close>

theorem C3_counterexample:
  "fillTexture (simplex sample_env) (createTexture sample_env) \<noteq>
   fillTexture (simplex second_env) (createTexture second_env) \<and>
   currentHeightmap (the_scene (run (setup_steps sample_env) (module_loaded 0))) \<noteq>
   currentHeightmap (the_scene (run (setup_steps second_env) (module_loaded 0)))"
proof -
  have len: "length (replicate (4 * WIDTH * WIDTH) (0::real)) = 4 * WIDTH * WIDTH" by simp
  have one: "1 < WIDTH" and zero: "0 < WIDTH" by (simp_all add: WIDTH_def)
  have a: "fillTexture (\<lambda>x y. 0) (replicate (4 * WIDTH * WIDTH) 0) ! (4 * (0 * WIDTH + 1) + 0) =
           cell (\<lambda>x y. 0) 0 1 ! 0"
    by (rule fillTexture_cell [OF len one zero]) simp
  have b: "fillTexture (\<lambda>x y. x / 1000) (replicate (4 * WIDTH * WIDTH) 0) ! (4 * (0 * WIDTH + 1) + 0) =
           cell (\<lambda>x y. x / 1000) 0 1 ! 0"
    by (rule fillTexture_cell [OF len one zero]) simp
  have a0: "cell (\<lambda>x y. 0) 0 1 ! 0 = 0"
    by (simp add: cell_def Let_def noise_eq_spec_noise spec_noise_def)
  have "0 < (\<Sum>k = 0..<15. spec_amplitude k * (spec_frequency k / 1000))"
    by (rule sum_pos) (simp_all add: spec_amplitude_pos spec_frequency_pos)
  then have b0: "0 < cell (\<lambda>x y. x / 1000) 0 1 ! 0"
    by (simp add: cell_def Let_def noise_eq_spec_noise spec_noise_def WIDTH_def)
  have ne: "fillTexture (\<lambda>x y. 0) (replicate (4 * WIDTH * WIDTH) 0) \<noteq>
            fillTexture (\<lambda>x y. x / 1000) (replicate (4 * WIDTH * WIDTH) 0)"
  proof
    assume "fillTexture (\<lambda>x y. 0) (replicate (4 * WIDTH * WIDTH) 0) =
            fillTexture (\<lambda>x y. x / 1000) (replicate (4 * WIDTH * WIDTH) 0)"
    with a b have "cell (\<lambda>x y. 0) 0 1 ! 0 = cell (\<lambda>x y. x / 1000) 0 1 ! 0" by simp
    with a0 b0 show False by simp
  qed
  then show ?thesis
    by (simp add: setup_heightmap sample_env_fields)
qed

text \<open>
  Claim C3, amended. The initial heightmap is a function of the noise instance of the run,
  and of nothing else: two runs of \<^verbatim>\<open>fillTexture\<close> whose instances agree at the points
  the generator samples (the fifteen octaves of every grid coordinate) produce the same
  heightmap, element for element, whatever the fresh textures they start from contain.
\<close>

theorem C3_instance_determines_heightmap:
  assumes "length pixels1 = 4 * WIDTH * WIDTH" and "length pixels2 = 4 * WIDTH * WIDTH"
    and "\<And>i j k. i < WIDTH \<Longrightarrow> j < WIDTH \<Longrightarrow> k < 15 \<Longrightarrow>
     sn1 (real i * 128 / real WIDTH * spec_frequency k) (real j * 128 / real WIDTH * spec_frequency k) =
     sn2 (real i * 128 / real WIDTH * spec_frequency k) (real j * 128 / real WIDTH * spec_frequency k)"
  shows "fillTexture sn1 pixels1 = fillTexture sn2 pixels2"
  using assms by (rule fillTexture_same_samples)

theorem C3_instance_determines_heightmap_witness:
  "length (replicate (4 * WIDTH * WIDTH) (0::real)) = 4 * WIDTH * WIDTH \<and>
   length (replicate (4 * WIDTH * WIDTH) (7::real)) = 4 * WIDTH * WIDTH \<and>
   fillTexture (\<lambda>x y. x / 1000) (replicate (4 * WIDTH * WIDTH) 0) =
   fillTexture (\<lambda>x y. if x < 0 then 1 else x / 1000) (replicate (4 * WIDTH * WIDTH) 7)"
proof -
  have l0: "length (replicate (4 * WIDTH * WIDTH) (0::real)) = 4 * WIDTH * WIDTH" by simp
  have l7: "length (replicate (4 * WIDTH * WIDTH) (7::real)) = 4 * WIDTH * WIDTH" by simp
  have nonneg: "\<not> real i * 128 / real WIDTH * spec_frequency k < 0" for i k
    using spec_frequency_pos [of k] by (simp add: WIDTH_def not_less)
  have "fillTexture (\<lambda>x y. x / 1000) (replicate (4 * WIDTH * WIDTH) 0) =
        fillTexture (\<lambda>x y. if x < 0 then 1 else x / 1000) (replicate (4 * WIDTH * WIDTH) 7)"
    by (rule C3_instance_determines_heightmap [OF l0 l7]) (simp only: nonneg if_False)
  with l0 l7 show ?thesis by blast
qed

text \<open>
  Claim C9. In the heightmap that \<^verbatim>\<open>fillTexture\<close> writes, every cell \<open>(i, j)\<close> of the
  \<open>WIDTH \<times> WIDTH\<close> grid has the noise height in channel 0, the same value in channel 1,
  \<open>0\<close> in channel 2 and the constant \<open>1\<close> in channel 3.
\<close>

theorem C9_initial_channels:
  assumes "length pixels = 4 * WIDTH * WIDTH" and "i < WIDTH" and "j < WIDTH"
  shows "fillTexture sn pixels ! (4 * (j * WIDTH + i) + 0) =
           noise sn (real i * 128 / real WIDTH) (real j * 128 / real WIDTH) \<and>
         fillTexture sn pixels ! (4 * (j * WIDTH + i) + 1) =
           fillTexture sn pixels ! (4 * (j * WIDTH + i) + 0) \<and>
         fillTexture sn pixels ! (4 * (j * WIDTH + i) + 2) = 0 \<and>
         fillTexture sn pixels ! (4 * (j * WIDTH + i) + 3) = 1 \<and>
         length (fillTexture sn pixels) = 4 * WIDTH * WIDTH"
proof -
  have c: "d < 4 \<Longrightarrow> fillTexture sn pixels ! (4 * (j * WIDTH + i) + d) = cell sn j i ! d" for d
    using assms by (intro fillTexture_cell)
  have "fillTexture sn pixels ! (4 * (j * WIDTH + i) + 0) = cell sn j i ! 0"
       "fillTexture sn pixels ! (4 * (j * WIDTH + i) + 1) = cell sn j i ! 1"
       "fillTexture sn pixels ! (4 * (j * WIDTH + i) + 2) = cell sn j i ! 2"
       "fillTexture sn pixels ! (4 * (j * WIDTH + i) + 3) = cell sn j i ! 3"
    by (rule c, simp)+
  then show ?thesis
    using length_fillTexture [OF assms(1), of sn] by (simp add: cell_def Let_def)
qed

theorem C9_initial_channels_witness:
  "length (replicate (4 * WIDTH * WIDTH) (7::real)) = 4 * WIDTH * WIDTH \<and> 3 < WIDTH \<and> 5 < WIDTH \<and>
   fillTexture (\<lambda>x y. x + y) (replicate (4 * WIDTH * WIDTH) 7) ! (4 * (5 * WIDTH + 3) + 0) =
     noise (\<lambda>x y. x + y) (real 3 * 128 / real WIDTH) (real 5 * 128 / real WIDTH) \<and>
   fillTexture (\<lambda>x y. x + y) (replicate (4 * WIDTH * WIDTH) 7) ! (4 * (5 * WIDTH + 3) + 1) =
     fillTexture (\<lambda>x y. x + y) (replicate (4 * WIDTH * WIDTH) 7) ! (4 * (5 * WIDTH + 3) + 0) \<and>
   fillTexture (\<lambda>x y. x + y) (replicate (4 * WIDTH * WIDTH) 7) ! (4 * (5 * WIDTH + 3) + 2) = 0 \<and>
   fillTexture (\<lambda>x y. x + y) (replicate (4 * WIDTH * WIDTH) 7) ! (4 * (5 * WIDTH + 3) + 3) = 1 \<and>
   length (fillTexture (\<lambda>x y. x + y) (replicate (4 * WIDTH * WIDTH) 7)) = 4 * WIDTH * WIDTH"
proof -
  have l: "length (replicate (4 * WIDTH * WIDTH) (7::real)) = 4 * WIDTH * WIDTH" by simp
  have i: "3 < WIDTH" and j: "5 < WIDTH" by (simp_all add: WIDTH_def)
  from C9_initial_channels [OF l i j, of "\<lambda>x y. x + y"] l i j show ?thesis by blast
qed

section \<open>Properties of the frame loop\<close>

lemmas step_defs = tick_def stepAgent_def compute_def assign_def copy_cameraPos_def console_log_def
  renderer_render_def stats_update_def log_def uniforms_of_def put_uniforms_def
  getCurrentRenderTarget_def sphere_position_def sphere_matrixWorld_def plane_matrixWorld_def

lemmas setup_defs = setup_steps_def module_loaded_def call_def create_camera_def
  setAgent_def setWater_def log_def sphere_position_def

lemma readyE:
  assumes "ready s"
  obtains pos cam sm pm wh wa wt ah at' where
    "vectors s SpherePosition = Some pos" "vectors s CameraPosition = Some cam"
    "matrices s SphereMatrixWorld = Some sm" "matrices s PlaneMatrixWorld = Some pm"
    "waterUniforms s ''cameraPos'' = Some (UVector3 WaterCameraPos)"
    "waterUniforms s ''heightmap'' = Some wh"
    "waterUniforms s ''agentPosition'' = Some wa"
    "waterUniforms s ''tf_agent_to_world'' = Some wt"
    "heightmapUniforms s ''agentPosition'' = Some (UVector3 SpherePosition)"
    "heightmapUniforms s ''tf_water_to_world'' = Some (UMatrix4 PlaneMatrixWorld)"
    "agentUniforms s ''heightmap'' = Some ah"
    "agentUniforms s ''tf_agent_to_world'' = Some at'"
    "length (renderTargets s) = 2" "currentTextureIndex s < 2"
  using assms unfolding ready_def by blast

lemma run_append:
  "run (fs @ gs) s = (case run fs s of Returned s' \<Rightarrow> run gs s' | Thrown e s' \<Rightarrow> Thrown e s')"
  by (induction fs arbitrary: s) (auto split: outcome.splits)

lemma animate_kinematics:
  "animate e now s =
     (case kinematics now s of Returned q \<Rightarrow> run [render e, stats_update] q
      | Thrown err q \<Rightarrow> Thrown err q)"
  using run_append [of "[tick now, (\<lambda>s. stepAgent (deltaTime s) s)]" "[render e, stats_update]" s]
  by (simp add: animate_def kinematics_def)

lemma kinematics_ready:
  assumes "ready s"
  shows "\<exists>q pos. kinematics now s = Returned q \<and> ready q \<and>
           trace q = trace s @ [RequestAnimationFrame, PerformanceNow, StepAgent] \<and>
           renderTargets q = renderTargets s \<and> currentTextureIndex q = currentTextureIndex s \<and>
           heightmapUniforms q = heightmapUniforms s \<and> heightmapDefines q = heightmapDefines s \<and>
           matrices q = matrices s \<and>
           vectors s SpherePosition = Some pos \<and>
           currentAngle q = Some ((case currentAngle s of None \<Rightarrow> 0 | Some a \<Rightarrow> a) +
                                   pi * ((now - lastTimestamp s) / 1000)) \<and>
           vectors q SpherePosition =
             Some (pos\<lparr>vec_x := 128 * cos (the (currentAngle q)), vec_z := 128 * sin (the (currentAngle q))\<rparr>)"
proof -
  from assms obtain pos where "vectors s SpherePosition = Some pos" by (rule readyE)
  then show ?thesis using assms
    by (simp add: kinematics_def ready_def step_defs Let_def BOUNDS_def)
qed

lemma shader_inputs_cong:
  "heightmapUniforms a = heightmapUniforms b \<Longrightarrow> vectors a = vectors b \<Longrightarrow>
   matrices a = matrices b \<Longrightarrow> shader_inputs a = shader_inputs b"
  by (rule ext) (simp add: shader_inputs_def resolve_def map_option_case split: option.splits uniform.splits)

lemma shader_inputs_trace: "shader_inputs (s\<lparr>trace := t\<rparr>) = shader_inputs s"
  by (rule shader_inputs_cong) simp_all

lemma render_ready:
  assumes "ready q"
  shows "\<exists>s'. render e q = Returned s' \<and> ready s' \<and>
           trace s' = trace q @
             [GpuCompute,
              UniformWrite Water ''heightmap'', UniformWrite Water ''cameraPos'',
              UniformWrite Water ''agentPosition'', UniformWrite Water ''tf_agent_to_world'',
              UniformWrite Heightmap ''agentPosition'', UniformWrite Heightmap ''tf_water_to_world'',
              UniformWrite Agent ''heightmap'', UniformWrite Agent ''tf_agent_to_world'',
              ConsoleLog, ConsoleLog, RendererRender] \<and>
           currentTextureIndex s' = (if currentTextureIndex q = 0 then 1 else 0) \<and>
           renderTargets s' = (renderTargets q)[currentTextureIndex s' :=
              heightmapFragmentShader e (shader_inputs q) (renderTargets q ! currentTextureIndex q)] \<and>
           heightmapUniforms s' = heightmapUniforms q \<and> heightmapDefines s' = heightmapDefines q \<and>
           waterUniforms s' ''heightmap'' = Some (UTexture (currentTextureIndex s')) \<and>
           agentUniforms s' ''heightmap'' = Some (UTexture (currentTextureIndex s')) \<and>
           vectors s' SpherePosition = vectors q SpherePosition \<and>
           currentAngle s' = currentAngle q"
proof -
  from assms show ?thesis
    by (rule readyE) (simp add: render_def ready_def step_defs Let_def map_upd_triv shader_inputs_trace)
qed

lemma sample_setup:
  "run (setup_steps sample_env) (module_loaded 0) = Returned sample_scene"
  by (simp add: sample_scene_def sample_env_def setup_defs Let_def)

lemma ready_sample_scene: "ready sample_scene"
  by (simp add: sample_scene_def sample_env_def setup_defs ready_def Let_def)

lemma run_single: "run [f] s = f s"
  by (cases "f s") simp_all

lemma ready_log: "ready (log es s) = ready s"
  by (simp add: ready_def log_def)

lemma nth_other_update: "length xs = 2 \<Longrightarrow> k < 2 \<Longrightarrow> xs[(if k = 0 then 1 else 0) := v] ! k = xs ! k"
  by (cases xs; cases "tl xs") (auto simp: less_2_cases_iff)

lemma animate_ready:
  assumes "ready s"
  shows "\<exists>q s'. kinematics now s = Returned q \<and> animate e now s = Returned s' \<and> ready q \<and> ready s' \<and>
           trace s' = trace s @
             [RequestAnimationFrame, PerformanceNow, StepAgent, GpuCompute,
              UniformWrite Water ''heightmap'', UniformWrite Water ''cameraPos'',
              UniformWrite Water ''agentPosition'', UniformWrite Water ''tf_agent_to_world'',
              UniformWrite Heightmap ''agentPosition'', UniformWrite Heightmap ''tf_water_to_world'',
              UniformWrite Agent ''heightmap'', UniformWrite Agent ''tf_agent_to_world'',
              ConsoleLog, ConsoleLog, RendererRender, StatsUpdate] \<and>
           length (renderTargets s') = 2 \<and> currentTextureIndex s' < 2 \<and>
           currentTextureIndex s' = (if currentTextureIndex s = 0 then 1 else 0) \<and>
           currentHeightmap s' = heightmapFragmentShader e (shader_inputs q) (currentHeightmap s) \<and>
           renderTargets s' ! currentTextureIndex s = currentHeightmap s \<and>
           heightmapUniforms s' = heightmapUniforms s \<and> heightmapDefines s' = heightmapDefines s \<and>
           waterUniforms s' ''heightmap'' = Some (UTexture (currentTextureIndex s')) \<and>
           agentUniforms s' ''heightmap'' = Some (UTexture (currentTextureIndex s')) \<and>
           vectors s' SpherePosition = vectors q SpherePosition \<and>
           currentAngle s' = currentAngle q"
proof -
  from kinematics_ready [OF assms, of now] obtain q where q:
    "kinematics now s = Returned q" "ready q"
    "trace q = trace s @ [RequestAnimationFrame, PerformanceNow, StepAgent]"
    "renderTargets q = renderTargets s" "currentTextureIndex q = currentTextureIndex s"
    "heightmapUniforms q = heightmapUniforms s" "heightmapDefines q = heightmapDefines s"
    by blast
  from render_ready [OF q(2), of e] obtain r where r:
    "render e q = Returned r" "ready r"
    "trace r = trace q @
             [GpuCompute,
              UniformWrite Water ''heightmap'', UniformWrite Water ''cameraPos'',
              UniformWrite Water ''agentPosition'', UniformWrite Water ''tf_agent_to_world'',
              UniformWrite Heightmap ''agentPosition'', UniformWrite Heightmap ''tf_water_to_world'',
              UniformWrite Agent ''heightmap'', UniformWrite Agent ''tf_agent_to_world'',
              ConsoleLog, ConsoleLog, RendererRender]"
    "currentTextureIndex r = (if currentTextureIndex q = 0 then 1 else 0)"
    "renderTargets r = (renderTargets q)[currentTextureIndex r :=
              heightmapFragmentShader e (shader_inputs q) (renderTargets q ! currentTextureIndex q)]"
    "heightmapUniforms r = heightmapUniforms q" "heightmapDefines r = heightmapDefines q"
    "waterUniforms r ''heightmap'' = Some (UTexture (currentTextureIndex r))"
    "agentUniforms r ''heightmap'' = Some (UTexture (currentTextureIndex r))"
    "vectors r SpherePosition = vectors q SpherePosition"
    "currentAngle r = currentAngle q"
    by blast
  have len: "length (renderTargets s) = 2" and cur: "currentTextureIndex s < 2"
    using assms by (simp_all add: ready_def)
  define s' where "s' = log [StatsUpdate] r"
  have a: "animate e now s = Returned s'"
    by (simp add: animate_kinematics q(1) r(1) stats_update_def s'_def)
  have rs: "ready s'" using r(2) by (simp add: s'_def ready_log)
  have f: "trace s' = trace r @ [StatsUpdate]" "renderTargets s' = renderTargets r"
    "currentTextureIndex s' = currentTextureIndex r" "heightmapUniforms s' = heightmapUniforms r"
    "heightmapDefines s' = heightmapDefines r" "waterUniforms s' = waterUniforms r"
    "agentUniforms s' = agentUniforms r" "vectors s' = vectors r"
    "currentAngle s' = currentAngle r"
    by (simp_all add: s'_def log_def)
  have idx: "currentTextureIndex s' = (if currentTextureIndex s = 0 then 1 else 0)"
    by (simp add: f r(4) q(5))
  have idx2: "currentTextureIndex s' < 2" by (simp add: idx)
  have rt: "renderTargets s' = (renderTargets s)[currentTextureIndex s' :=
      heightmapFragmentShader e (shader_inputs q) (currentHeightmap s)]"
    by (simp add: f r(5) q(4) q(5) currentHeightmap_def)
  have h: "currentHeightmap s' = heightmapFragmentShader e (shader_inputs q) (currentHeightmap s)"
    using idx2 len by (simp add: currentHeightmap_def [of s'] rt)
  have old: "renderTargets s' ! currentTextureIndex s = currentHeightmap s"
    unfolding rt idx currentHeightmap_def [of s] by (rule nth_other_update [OF len cur])
  show ?thesis
    using q(1,2) a rs h old idx idx2 len
    by (simp add: f r q rt)
qed

lemma frame_events_ready:
  assumes "ready s"
  shows "frame_events e now s =
             [RequestAnimationFrame, PerformanceNow, StepAgent, GpuCompute,
              UniformWrite Water ''heightmap'', UniformWrite Water ''cameraPos'',
              UniformWrite Water ''agentPosition'', UniformWrite Water ''tf_agent_to_world'',
              UniformWrite Heightmap ''agentPosition'', UniformWrite Heightmap ''tf_water_to_world'',
              UniformWrite Agent ''heightmap'', UniformWrite Agent ''tf_agent_to_world'',
              ConsoleLog, ConsoleLog, RendererRender, StatsUpdate]"
proof -
  from animate_ready [OF assms, of now e] obtain s' where
    "animate e now s = Returned s'"
    "trace s' = trace s @
             [RequestAnimationFrame, PerformanceNow, StepAgent, GpuCompute,
              UniformWrite Water ''heightmap'', UniformWrite Water ''cameraPos'',
              UniformWrite Water ''agentPosition'', UniformWrite Water ''tf_agent_to_world'',
              UniformWrite Heightmap ''agentPosition'', UniformWrite Heightmap ''tf_water_to_world'',
              UniformWrite Agent ''heightmap'', UniformWrite Agent ''tf_agent_to_world'',
              ConsoleLog, ConsoleLog, RendererRender, StatsUpdate]"
    by blast
  then show ?thesis by (simp add: frame_events_def)
qed

lemma agent_input:
  assumes "ready q" and "vectors q SpherePosition = Some v" and "matrices q PlaneMatrixWorld = Some m"
  shows "shader_inputs q ''agentPosition'' = Some (SVector3 v) \<and>
         shader_inputs q ''tf_water_to_world'' = Some (SMatrix4 m)"
  using assms by (simp add: ready_def shader_inputs_def resolve_def)

lemma frames_ready:
  "ready s \<Longrightarrow>
   \<exists>p. run (map (animate e) ts) s = Returned p \<and> ready p \<and>
       currentTextureIndex p = (currentTextureIndex s + length ts) mod 2 \<and>
       heightmapUniforms p = heightmapUniforms s \<and> heightmapDefines p = heightmapDefines s"
proof (induction ts arbitrary: s)
  case Nil
  then show ?case by (simp add: ready_def)
next
  case (Cons t ts)
  from animate_ready [OF Cons.prems, of t e] obtain s' where s':
    "animate e t s = Returned s'" "ready s'"
    "currentTextureIndex s' = (if currentTextureIndex s = 0 then 1 else 0)"
    "heightmapUniforms s' = heightmapUniforms s" "heightmapDefines s' = heightmapDefines s"
    by blast
  from Cons.IH [OF s'(2)] obtain p where p:
    "run (map (animate e) ts) s' = Returned p" "ready p"
    "currentTextureIndex p = (currentTextureIndex s' + length ts) mod 2"
    "heightmapUniforms p = heightmapUniforms s'" "heightmapDefines p = heightmapDefines s'"
    by blast
  have cur: "currentTextureIndex s < 2" using Cons.prems by (simp add: ready_def)
  have "(currentTextureIndex s' + length ts) mod 2 = (currentTextureIndex s + length (t # ts)) mod 2"
  proof (cases "currentTextureIndex s = 0")
    case True
    then show ?thesis by (simp add: s'(3))
  next
    case False
    with cur have one: "currentTextureIndex s = 1" by simp
    have "length ts mod 2 = (1 + Suc (length ts)) mod 2" by presburger
    then show ?thesis by (simp add: s'(3) one)
  qed
  then show ?case using s' p by simp
qed

subsection \<open>One frame\<close>

lemma sample_scene_fields:
  "currentAngle sample_scene = None" "lastTimestamp sample_scene = 0"
  "vectors sample_scene SpherePosition = Some \<lparr>vec_x = 0, vec_y = 0, vec_z = 0\<rparr>"
  "matrices sample_scene PlaneMatrixWorld = Some identity4"
  "heightmapUniforms sample_scene ''mousePos'' = Some (UVector2 10000 10000)"
  "heightmapUniforms sample_scene ''mouseSize'' = Some (UNumber 20)"
  "heightmapUniforms sample_scene ''viscosityConstant'' = Some (UNumber 0.98)"
  "heightmapUniforms sample_scene ''heightCompensation'' = Some (UNumber 0)"
  "heightmapDefines sample_scene ''BOUNDS'' = Some ''512.0''"
  by (simp_all add: sample_scene_def sample_env_def setup_defs Let_def)

text \<open>
  Claim C1, as stated, fails: in a frame the assignment to the \<^verbatim>\<open>agentPosition\<close> uniform of
  the simulation comes after \<^verbatim>\<open>gpuCompute.compute()\<close>, not before it.
\<close>

theorem C1_counterexample:
  "precedes GpuCompute (UniformWrite Heightmap ''agentPosition'')
     (frame_events sample_env 1000 sample_scene) \<and>
   \<not> precedes (UniformWrite Heightmap ''agentPosition'') GpuCompute
     (frame_events sample_env 1000 sample_scene)"
  by (simp add: frame_events_ready [OF ready_sample_scene])

text \<open>
  Claim C1, amended. Once the scene is set up, a frame runs to its end and makes its calls
  in this order: the next frame is requested and the elapsed time computed, the agent is
  advanced, the simulation step runs, the water uniforms are refreshed, the
  \<^verbatim>\<open>agentPosition\<close> and \<^verbatim>\<open>tf_water_to_world\<close> uniforms of the simulation are assigned, the
  agent uniforms are refreshed, and then the scene is drawn. The simulation step of a
  frame still reads the position that the kinematic update of the same frame produced,
  because its \<^verbatim>\<open>agentPosition\<close> uniform holds the position object of the sphere itself.
\<close>

theorem C1_frame_order:
  assumes "ready s"
  shows "frame_events e now s =
           [RequestAnimationFrame, PerformanceNow, StepAgent, GpuCompute,
            UniformWrite Water ''heightmap'', UniformWrite Water ''cameraPos'',
            UniformWrite Water ''agentPosition'', UniformWrite Water ''tf_agent_to_world'',
            UniformWrite Heightmap ''agentPosition'', UniformWrite Heightmap ''tf_water_to_world'',
            UniformWrite Agent ''heightmap'', UniformWrite Agent ''tf_agent_to_world'',
            ConsoleLog, ConsoleLog, RendererRender, StatsUpdate] \<and>
         (\<exists>q s' v. kinematics now s = Returned q \<and> animate e now s = Returned s' \<and>
            vectors q SpherePosition = Some v \<and> vectors s' SpherePosition = Some v \<and>
            shader_inputs q ''agentPosition'' = Some (SVector3 v) \<and>
            currentHeightmap s' = heightmapFragmentShader e (shader_inputs q) (currentHeightmap s))"
proof
  show "frame_events e now s =
           [RequestAnimationFrame, PerformanceNow, StepAgent, GpuCompute,
            UniformWrite Water ''heightmap'', UniformWrite Water ''cameraPos'',
            UniformWrite Water ''agentPosition'', UniformWrite Water ''tf_agent_to_world'',
            UniformWrite Heightmap ''agentPosition'', UniformWrite Heightmap ''tf_water_to_world'',
            UniformWrite Agent ''heightmap'', UniformWrite Agent ''tf_agent_to_world'',
            ConsoleLog, ConsoleLog, RendererRender, StatsUpdate]"
    by (rule frame_events_ready [OF assms])
  from animate_ready [OF assms, of now e] obtain q s' where f:
    "kinematics now s = Returned q" "animate e now s = Returned s'" "ready q"
    "currentHeightmap s' = heightmapFragmentShader e (shader_inputs q) (currentHeightmap s)"
    "vectors s' SpherePosition = vectors q SpherePosition"
    by blast
  from f(3) obtain v m where v: "vectors q SpherePosition = Some v"
    and m: "matrices q PlaneMatrixWorld = Some m"
    by (rule readyE)
  from agent_input [OF f(3) v m] have "shader_inputs q ''agentPosition'' = Some (SVector3 v)" ..
  with f v show "\<exists>q s' v. kinematics now s = Returned q \<and> animate e now s = Returned s' \<and>
            vectors q SpherePosition = Some v \<and> vectors s' SpherePosition = Some v \<and>
            shader_inputs q ''agentPosition'' = Some (SVector3 v) \<and>
            currentHeightmap s' = heightmapFragmentShader e (shader_inputs q) (currentHeightmap s)"
    by auto
qed

theorem C1_frame_order_witness:
  "ready sample_scene \<and>
   frame_events sample_env 1000 sample_scene =
           [RequestAnimationFrame, PerformanceNow, StepAgent, GpuCompute,
            UniformWrite Water ''heightmap'', UniformWrite Water ''cameraPos'',
            UniformWrite Water ''agentPosition'', UniformWrite Water ''tf_agent_to_world'',
            UniformWrite Heightmap ''agentPosition'', UniformWrite Heightmap ''tf_water_to_world'',
            UniformWrite Agent ''heightmap'', UniformWrite Agent ''tf_agent_to_world'',
            ConsoleLog, ConsoleLog, RendererRender, StatsUpdate] \<and>
   (\<exists>q s' v. kinematics 1000 sample_scene = Returned q \<and> animate sample_env 1000 sample_scene = Returned s' \<and>
      vectors q SpherePosition = Some v \<and> vectors s' SpherePosition = Some v \<and>
      shader_inputs q ''agentPosition'' = Some (SVector3 v) \<and>
      currentHeightmap s' =
        heightmapFragmentShader sample_env (shader_inputs q) (currentHeightmap sample_scene))"
  using C1_frame_order [OF ready_sample_scene, of sample_env 1000] ready_sample_scene by blast

text \<open>
  Claim C10. For every elapsed time \<open>dt\<close>, \<^verbatim>\<open>stepAgent\<close> leaves the \<open>y\<close> coordinate of the
  sphere unchanged, puts \<open>(x, z)\<close> on the circle of radius \<open>BOUNDS / 4 = 128\<close> around the
  origin, and advances the angle by \<open>pi * dt\<close>.
\<close>

theorem C10_agent_circle:
  assumes "vectors s SpherePosition = Some pos"
  shows "\<exists>s' pos'. stepAgent dt s = Returned s' \<and>
           vectors s' SpherePosition = Some pos' \<and>
           vec_y pos' = vec_y pos \<and>
           (vec_x pos')\<^sup>2 + (vec_z pos')\<^sup>2 = (BOUNDS / 4)\<^sup>2 \<and> BOUNDS / 4 = 128 \<and>
           currentAngle s' = Some ((case currentAngle s of None \<Rightarrow> 0 | Some a \<Rightarrow> a) + pi * dt) \<and>
           vec_x pos' = 128 * cos ((case currentAngle s of None \<Rightarrow> 0 | Some a \<Rightarrow> a) + pi * dt) \<and>
           vec_z pos' = 128 * sin ((case currentAngle s of None \<Rightarrow> 0 | Some a \<Rightarrow> a) + pi * dt)"
proof -
  have circle: "(r * cos a)\<^sup>2 + (r * sin a)\<^sup>2 = r\<^sup>2" for r a :: real
  proof -
    have "(r * cos a)\<^sup>2 + (r * sin a)\<^sup>2 = r\<^sup>2 * ((cos a)\<^sup>2 + (sin a)\<^sup>2)"
      by (simp only: power_mult_distrib distrib_left)
    also have "\<dots> = r\<^sup>2"
      by (simp only: sin_cos_squared_add2 mult_1_right)
    finally show ?thesis .
  qed
  show ?thesis
    using assms circle [of 128]
    by (simp add: stepAgent_def log_def Let_def BOUNDS_def)
qed

theorem C10_agent_circle_witness:
  "vectors sample_scene SpherePosition = Some \<lparr>vec_x = 0, vec_y = 0, vec_z = 0\<rparr> \<and>
   (\<exists>s' pos'. stepAgent (1 / 2) sample_scene = Returned s' \<and>
           vectors s' SpherePosition = Some pos' \<and>
           vec_y pos' = vec_y \<lparr>vec_x = 0, vec_y = 0, vec_z = 0\<rparr> \<and>
           (vec_x pos')\<^sup>2 + (vec_z pos')\<^sup>2 = (BOUNDS / 4)\<^sup>2 \<and> BOUNDS / 4 = 128 \<and>
           currentAngle s' = Some ((case currentAngle sample_scene of None \<Rightarrow> 0 | Some a \<Rightarrow> a) + pi * (1 / 2)) \<and>
           vec_x pos' = 128 * cos ((case currentAngle sample_scene of None \<Rightarrow> 0 | Some a \<Rightarrow> a) + pi * (1 / 2)) \<and>
           vec_z pos' = 128 * sin ((case currentAngle sample_scene of None \<Rightarrow> 0 | Some a \<Rightarrow> a) + pi * (1 / 2)))"
  using C10_agent_circle [OF sample_scene_fields(3), of "1 / 2"] sample_scene_fields(3) by blast

subsection \<open>Setup and sequences of frames\<close>

lemma setup_failing:
  assumes "gpuInit e = Some err"
  shows "\<exists>s. run (setup_steps e) (module_loaded t0) = Returned s \<and>
           trace s =
             [Call ''setLights'', Call ''setControls'', Call ''setAxesHelper'', Call ''setAgent'',
              Call ''setWater'', ConsoleError err,
              Call ''setGround'', Call ''setWalls'', Call ''handleResize'', Call ''events'']"
  using assms by (simp add: setup_defs Let_def)

lemma gpuInit_failing_env: "gpuInit failing_env = Some ''unsupported''"
  by (simp add: failing_env_def)

text \<open>
  Claim C4, as stated, fails: when \<^verbatim>\<open>gpuCompute.init()\<close> reports an error, the setup goes
  on after the error has been logged: \<^verbatim>\<open>setGround\<close>, and everything up to \<^verbatim>\<open>events\<close>, still run.
\<close>

theorem C4_counterexample:
  "precedes (ConsoleError ''unsupported'') (Call ''setGround'')
     (trace (the_scene (run (setup_steps failing_env) (module_loaded 0)))) \<and>
   precedes (ConsoleError ''unsupported'') (Call ''events'')
     (trace (the_scene (run (setup_steps failing_env) (module_loaded 0))))"
proof -
  from setup_failing [OF gpuInit_failing_env, of 0] obtain s where
    "run (setup_steps failing_env) (module_loaded 0) = Returned s"
    "trace s =
             [Call ''setLights'', Call ''setControls'', Call ''setAxesHelper'', Call ''setAgent'',
              Call ''setWater'', ConsoleError ''unsupported'',
              Call ''setGround'', Call ''setWalls'', Call ''handleResize'', Call ''events'']"
    by blast
  then show ?thesis by simp
qed

lemma init_setup:
  "run (setup_steps e) s0 = Returned s \<Longrightarrow> init e now s0 = animate e now s"
  unfolding init_def run_append by (simp add: run_single del: run.simps)

text \<open>
  Claim C4, amended. When \<^verbatim>\<open>gpuCompute.init()\<close> returns an error, \<^verbatim>\<open>setWater\<close> logs it
  once with \<^verbatim>\<open>console.error\<close> and returns; nothing is retried and nothing is aborted:
  \<^verbatim>\<open>init\<close> goes on with \<^verbatim>\<open>setGround\<close>, \<^verbatim>\<open>setWalls\<close>, \<^verbatim>\<open>handleResize\<close> and \<^verbatim>\<open>events\<close>, and
  then starts the frame loop.
\<close>

theorem C4_setup_continues:
  assumes "gpuInit e = Some err"
  shows "\<exists>s. run (setup_steps e) (module_loaded t0) = Returned s \<and>
           trace s =
             [Call ''setLights'', Call ''setControls'', Call ''setAxesHelper'', Call ''setAgent'',
              Call ''setWater'', ConsoleError err,
              Call ''setGround'', Call ''setWalls'', Call ''handleResize'', Call ''events''] \<and>
           init e now (module_loaded t0) = animate e now s"
proof -
  from setup_failing [OF assms, of t0] obtain s where s: "run (setup_steps e) (module_loaded t0) = Returned s"
    and t: "trace s =
             [Call ''setLights'', Call ''setControls'', Call ''setAxesHelper'', Call ''setAgent'',
              Call ''setWater'', ConsoleError err,
              Call ''setGround'', Call ''setWalls'', Call ''handleResize'', Call ''events'']"
    by blast
  with init_setup [OF s] show ?thesis by simp
qed

theorem C4_setup_continues_witness:
  "gpuInit failing_env = Some ''unsupported'' \<and>
   (\<exists>s. run (setup_steps failing_env) (module_loaded 0) = Returned s \<and>
           trace s =
             [Call ''setLights'', Call ''setControls'', Call ''setAxesHelper'', Call ''setAgent'',
              Call ''setWater'', ConsoleError ''unsupported'',
              Call ''setGround'', Call ''setWalls'', Call ''handleResize'', Call ''events''] \<and>
           init failing_env 1000 (module_loaded 0) = animate failing_env 1000 s)"
  using C4_setup_continues [OF gpuInit_failing_env, of 0 1000] gpuInit_failing_env by blast

text \<open>
  Claim C5. After any number of frames \<open>ts\<close> followed by one more, the compute pipeline
  still has its two buffers; the last step wrote exactly one of them, the one at the
  cursor, which now holds the output of that step computed from the buffer that was
  current before; the other buffer, the one the step read, still holds what it held; the
  cursor has flipped once per step; and the accessor returns the buffer at the cursor,
  which is what the water and the agent uniforms hold when the scene is drawn.
\<close>

theorem C5_ping_pong:
  assumes "ready s"
  shows "\<exists>p q s'. run (map (animate e) ts) s = Returned p \<and>
           kinematics t p = Returned q \<and>
           animate e t p = Returned s' \<and>
           run (map (animate e) (ts @ [t])) s = Returned s' \<and>
           length (renderTargets s') = 2 \<and>
           currentTextureIndex s' < 2 \<and>
           currentTextureIndex s' \<noteq> currentTextureIndex p \<and>
           currentTextureIndex s' = (currentTextureIndex s + length (ts @ [t])) mod 2 \<and>
           currentHeightmap s' = heightmapFragmentShader e (shader_inputs q) (currentHeightmap p) \<and>
           renderTargets s' ! currentTextureIndex p = currentHeightmap p \<and>
           getCurrentRenderTarget s' = Some (UTexture (currentTextureIndex s')) \<and>
           waterUniforms s' ''heightmap'' = getCurrentRenderTarget s' \<and>
           agentUniforms s' ''heightmap'' = getCurrentRenderTarget s'"
proof -
  from frames_ready [OF assms, of e ts] obtain p where p:
    "run (map (animate e) ts) s = Returned p" "ready p"
    "currentTextureIndex p = (currentTextureIndex s + length ts) mod 2"
    by blast
  from animate_ready [OF p(2), of t e] obtain q s' where f:
    "kinematics t p = Returned q" "animate e t p = Returned s'"
    "length (renderTargets s') = 2" "currentTextureIndex s' < 2"
    "currentTextureIndex s' = (if currentTextureIndex p = 0 then 1 else 0)"
    "currentHeightmap s' = heightmapFragmentShader e (shader_inputs q) (currentHeightmap p)"
    "renderTargets s' ! currentTextureIndex p = currentHeightmap p"
    "waterUniforms s' ''heightmap'' = Some (UTexture (currentTextureIndex s'))"
    "agentUniforms s' ''heightmap'' = Some (UTexture (currentTextureIndex s'))"
    by blast
  have all: "run (map (animate e) (ts @ [t])) s = Returned s'"
    by (simp add: run_append p(1) f(2))
  have ne: "currentTextureIndex s' \<noteq> currentTextureIndex p" by (simp add: f(5))
  have "(if (currentTextureIndex s + length ts) mod 2 = 0 then 1 else 0) =
        (currentTextureIndex s + length (ts @ [t])) mod 2"
    by (simp add: mod_Suc)
  then have par: "currentTextureIndex s' = (currentTextureIndex s + length (ts @ [t])) mod 2"
    by (simp add: f(5) p(3))
  have acc: "getCurrentRenderTarget s' = Some (UTexture (currentTextureIndex s'))"
    using f(3,4) by (simp add: getCurrentRenderTarget_def)
  show ?thesis
    using p(1) f(1,2,3,4,6,7,8,9) all ne par acc by simp
qed

theorem C5_ping_pong_witness:
  "ready sample_scene \<and>
   (\<exists>p q s'. run (map (animate sample_env) [1000, 2000]) sample_scene = Returned p \<and>
           kinematics 3000 p = Returned q \<and>
           animate sample_env 3000 p = Returned s' \<and>
           run (map (animate sample_env) ([1000, 2000] @ [3000])) sample_scene = Returned s' \<and>
           length (renderTargets s') = 2 \<and>
           currentTextureIndex s' < 2 \<and>
           currentTextureIndex s' \<noteq> currentTextureIndex p \<and>
           currentTextureIndex s' = (currentTextureIndex sample_scene + length ([1000, 2000] @ [3000::real])) mod 2 \<and>
           currentHeightmap s' = heightmapFragmentShader sample_env (shader_inputs q) (currentHeightmap p) \<and>
           renderTargets s' ! currentTextureIndex p = currentHeightmap p \<and>
           getCurrentRenderTarget s' = Some (UTexture (currentTextureIndex s')) \<and>
           waterUniforms s' ''heightmap'' = getCurrentRenderTarget s' \<and>
           agentUniforms s' ''heightmap'' = getCurrentRenderTarget s')"
  using C5_ping_pong [OF ready_sample_scene, of sample_env "[1000, 2000]" 3000] ready_sample_scene
  by blast

lemma setup_ready:
  assumes "gpuInit e = None"
  shows "\<exists>s0. run (setup_steps e) (module_loaded t0) = Returned s0 \<and> ready s0 \<and>
           heightmapUniforms s0 ''viscosityConstant'' = Some (UNumber 0.98) \<and>
           heightmapUniforms s0 ''mouseSize'' = Some (UNumber 20) \<and>
           heightmapUniforms s0 ''heightCompensation'' = Some (UNumber 0) \<and>
           heightmapUniforms s0 ''mousePos'' = Some (UVector2 10000 10000) \<and>
           heightmapDefines s0 ''BOUNDS'' = Some ''512.0''"
  using assms by (simp add: setup_defs ready_def Let_def)

lemma gpuInit_sample_env: "gpuInit sample_env = None"
  by (simp add: sample_env_def)

text \<open>
  Claim C7. After setup, any number of frames \<open>ts\<close> and one more frame, the uniforms
  \<^verbatim>\<open>viscosityConstant\<close>, \<^verbatim>\<open>mouseSize\<close>, \<^verbatim>\<open>heightCompensation\<close> and \<^verbatim>\<open>mousePos\<close> and the
  \<^verbatim>\<open>BOUNDS\<close> define of the simulation hold the values that \<^verbatim>\<open>setWater\<close> gave them. The
  perturbation source, the position object behind the \<^verbatim>\<open>agentPosition\<close> uniform, is moved
  once by the frame: after the frame the angle is the one before it plus \<open>pi\<close> times the
  elapsed seconds, the position has its \<open>x\<close> and \<open>z\<close> at that angle on the circle and
  is otherwise what it was before the frame, and that is what the simulation reads; the
  frame calls \<^verbatim>\<open>stepAgent\<close> once and assigns \<^verbatim>\<open>agentPosition\<close> once.
\<close>

theorem C7_parameters_immutable:
  assumes "gpuInit e = None"
  shows "\<exists>s0 p s' pos angle.
           run (setup_steps e) (module_loaded t0) = Returned s0 \<and>
           run (map (animate e) ts) s0 = Returned p \<and>
           animate e now p = Returned s' \<and>
           heightmapUniforms s' ''viscosityConstant'' = Some (UNumber 0.98) \<and>
           heightmapUniforms s' ''mouseSize'' = Some (UNumber 20) \<and>
           heightmapUniforms s' ''heightCompensation'' = Some (UNumber 0) \<and>
           heightmapUniforms s' ''mousePos'' = Some (UVector2 10000 10000) \<and>
           heightmapDefines s' ''BOUNDS'' = Some ''512.0'' \<and>
           heightmapUniforms s' ''agentPosition'' = Some (UVector3 SpherePosition) \<and>
           vectors p SpherePosition = Some pos \<and>
           angle = (case currentAngle p of None \<Rightarrow> 0 | Some a \<Rightarrow> a) +
                     pi * ((now - lastTimestamp p) / 1000) \<and>
           currentAngle s' = Some angle \<and>
           vectors s' SpherePosition = Some (pos\<lparr>vec_x := 128 * cos angle, vec_z := 128 * sin angle\<rparr>) \<and>
           shader_inputs s' ''agentPosition'' =
             Some (SVector3 (pos\<lparr>vec_x := 128 * cos angle, vec_z := 128 * sin angle\<rparr>)) \<and>
           count_list (frame_events e now p) StepAgent = 1 \<and>
           count_list (frame_events e now p) (UniformWrite Heightmap ''agentPosition'') = 1"
proof -
  from setup_ready [OF assms, of t0] obtain s0 where s0:
    "run (setup_steps e) (module_loaded t0) = Returned s0" "ready s0"
    "heightmapUniforms s0 ''viscosityConstant'' = Some (UNumber 0.98)"
    "heightmapUniforms s0 ''mouseSize'' = Some (UNumber 20)"
    "heightmapUniforms s0 ''heightCompensation'' = Some (UNumber 0)"
    "heightmapUniforms s0 ''mousePos'' = Some (UVector2 10000 10000)"
    "heightmapDefines s0 ''BOUNDS'' = Some ''512.0''"
    by blast
  from frames_ready [OF s0(2), of e ts] obtain p where p:
    "run (map (animate e) ts) s0 = Returned p" "ready p"
    "heightmapUniforms p = heightmapUniforms s0" "heightmapDefines p = heightmapDefines s0"
    by blast
  from animate_ready [OF p(2), of now e] obtain q s' where f:
    "kinematics now p = Returned q" "animate e now p = Returned s'" "ready s'"
    "heightmapUniforms s' = heightmapUniforms p" "heightmapDefines s' = heightmapDefines p"
    "vectors s' SpherePosition = vectors q SpherePosition"
    "currentAngle s' = currentAngle q"
    by blast
  from kinematics_ready [OF p(2), of now] f(1) obtain pos where k:
    "vectors p SpherePosition = Some pos"
    "currentAngle q = Some ((case currentAngle p of None \<Rightarrow> 0 | Some a \<Rightarrow> a) +
                                   pi * ((now - lastTimestamp p) / 1000))"
    "vectors q SpherePosition =
             Some (pos\<lparr>vec_x := 128 * cos (the (currentAngle q)), vec_z := 128 * sin (the (currentAngle q))\<rparr>)"
    by auto
  define angle where "angle = (case currentAngle p of None \<Rightarrow> 0 | Some a \<Rightarrow> a) +
                     pi * ((now - lastTimestamp p) / 1000)"
  have a: "currentAngle s' = Some angle" by (simp add: f(7) k(2) angle_def)
  have v: "vectors s' SpherePosition = Some (pos\<lparr>vec_x := 128 * cos angle, vec_z := 128 * sin angle\<rparr>)"
    by (simp add: f(6) k(3) k(2) angle_def)
  from f(3) obtain m where m: "matrices s' PlaneMatrixWorld = Some m" by (rule readyE)
  from agent_input [OF f(3) v m] have i:
    "shader_inputs s' ''agentPosition'' =
       Some (SVector3 (pos\<lparr>vec_x := 128 * cos angle, vec_z := 128 * sin angle\<rparr>))" ..
  have b: "heightmapUniforms s' ''agentPosition'' = Some (UVector3 SpherePosition)"
    using f(3) by (simp add: ready_def)
  have u: "heightmapUniforms s' ''viscosityConstant'' = Some (UNumber 0.98)"
    "heightmapUniforms s' ''mouseSize'' = Some (UNumber 20)"
    "heightmapUniforms s' ''heightCompensation'' = Some (UNumber 0)"
    "heightmapUniforms s' ''mousePos'' = Some (UVector2 10000 10000)"
    "heightmapDefines s' ''BOUNDS'' = Some ''512.0''"
    by (simp_all only: f(4,5) p(3,4) s0)
  have c: "count_list (frame_events e now p) StepAgent = 1"
    "count_list (frame_events e now p) (UniformWrite Heightmap ''agentPosition'') = 1"
    by (simp_all add: frame_events_ready [OF p(2)])
  from s0(1) p(1) f(2) u b k(1) angle_def a v i c show ?thesis by blast
qed

theorem C7_parameters_immutable_witness:
  "gpuInit sample_env = None \<and>
   (\<exists>s0 p s' pos angle.
           run (setup_steps sample_env) (module_loaded 0) = Returned s0 \<and>
           run (map (animate sample_env) [1000, 2000]) s0 = Returned p \<and>
           animate sample_env 3000 p = Returned s' \<and>
           heightmapUniforms s' ''viscosityConstant'' = Some (UNumber 0.98) \<and>
           heightmapUniforms s' ''mouseSize'' = Some (UNumber 20) \<and>
           heightmapUniforms s' ''heightCompensation'' = Some (UNumber 0) \<and>
           heightmapUniforms s' ''mousePos'' = Some (UVector2 10000 10000) \<and>
           heightmapDefines s' ''BOUNDS'' = Some ''512.0'' \<and>
           heightmapUniforms s' ''agentPosition'' = Some (UVector3 SpherePosition) \<and>
           vectors p SpherePosition = Some pos \<and>
           angle = (case currentAngle p of None \<Rightarrow> 0 | Some a \<Rightarrow> a) +
                     pi * ((3000 - lastTimestamp p) / 1000) \<and>
           currentAngle s' = Some angle \<and>
           vectors s' SpherePosition = Some (pos\<lparr>vec_x := 128 * cos angle, vec_z := 128 * sin angle\<rparr>) \<and>
           shader_inputs s' ''agentPosition'' =
             Some (SVector3 (pos\<lparr>vec_x := 128 * cos angle, vec_z := 128 * sin angle\<rparr>)) \<and>
           count_list (frame_events sample_env 3000 p) StepAgent = 1 \<and>
           count_list (frame_events sample_env 3000 p) (UniformWrite Heightmap ''agentPosition'') = 1)"
  using C7_parameters_immutable [OF gpuInit_sample_env, of 0 "[1000, 2000]" 3000] gpuInit_sample_env
  by blast

end
